theory Spec2Isabelle
  imports Complex_Main
begin

section \<open>Python strings\<close>

text \<open>
  A Python \<open>str\<close> is modelled as a \<^typ>\<open>string\<close>, the UTF-8 encoding of the text.
  The character classes of Python (\<open>lower\<close>, \<open>isalpha\<close>, \<open>isspace\<close>, the regular
  expression classes \<open>\d\<close>, \<open>\w\<close>, \<open>\s\<close>) are modelled on the ASCII range; the
  bytes of a character outside ASCII are caseless and belong to no class. The only
  character outside ASCII that the source names is the rupee sign U+20B9.
\<close>

definition is_space :: "char \<Rightarrow> bool" where
  \<comment> \<open>\<open>str.isspace\<close> on ASCII: TAB, LF, VT, FF, CR, FS, GS, RS, US and the blank.\<close>
  "is_space c \<longleftrightarrow>
     c \<in> set [CHR 0x09, CHR 0x0A, CHR 0x0B, CHR 0x0C, CHR 0x0D,
               CHR 0x1C, CHR 0x1D, CHR 0x1E, CHR 0x1F, CHR '' '']"

definition is_digit :: "char \<Rightarrow> bool" where
  "is_digit c \<longleftrightarrow> c \<in> set ''0123456789''"

definition is_upper :: "char \<Rightarrow> bool" where
  "is_upper c \<longleftrightarrow> c \<in> set ''ABCDEFGHIJKLMNOPQRSTUVWXYZ''"

definition is_lower :: "char \<Rightarrow> bool" where
  "is_lower c \<longleftrightarrow> c \<in> set ''abcdefghijklmnopqrstuvwxyz''"

definition is_alpha :: "char \<Rightarrow> bool" where
  "is_alpha c \<longleftrightarrow> is_upper c \<or> is_lower c"

definition lower_char :: "char \<Rightarrow> char" where
  "lower_char c = (if is_upper c then char_of (of_char c + (32::int)) else c)"

definition upper_char :: "char \<Rightarrow> char" where
  "upper_char c = (if is_lower c then char_of (of_char c - (32::int)) else c)"

definition lower :: "string \<Rightarrow> string" where
  \<comment> \<open>\<open>s.lower()\<close>\<close>
  "lower s = map lower_char s"

definition strip :: "string \<Rightarrow> string" where
  \<comment> \<open>\<open>s.strip()\<close>\<close>
  "strip s = rev (dropWhile is_space (rev (dropWhile is_space s)))"

definition startswith :: "string \<Rightarrow> string \<Rightarrow> bool" where
  \<comment> \<open>\<open>s.startswith(p)\<close>\<close>
  "startswith s p \<longleftrightarrow> take (length p) s = p"

definition endswith :: "string \<Rightarrow> string \<Rightarrow> bool" where
  \<comment> \<open>\<open>s.endswith(p)\<close>\<close>
  "endswith s p \<longleftrightarrow> startswith (rev s) (rev p)"

fun contains :: "string \<Rightarrow> string \<Rightarrow> bool" where
  \<comment> \<open>\<open>sub in s\<close>, written \<open>contains s sub\<close>\<close>
  "contains [] sub \<longleftrightarrow> sub = []"
| "contains (c # cs) sub \<longleftrightarrow> startswith (c # cs) sub \<or> contains cs sub"

definition remove_char :: "char \<Rightarrow> string \<Rightarrow> string" where
  \<comment> \<open>\<open>s.replace(c, '')\<close> for a single character \<open>c\<close>\<close>
  "remove_char c s = filter (\<lambda>d. d \<noteq> c) s"

definition replace_char :: "char \<Rightarrow> char \<Rightarrow> string \<Rightarrow> string" where
  \<comment> \<open>\<open>s.replace(c, d)\<close> for single characters\<close>
  "replace_char c d s = map (\<lambda>e. if e = c then d else e) s"

definition rupee :: string where
  \<comment> \<open>the rupee sign U+20B9 in UTF-8\<close>
  "rupee = [CHR 0xE2, CHR 0x82, CHR 0xB9]"

fun remove_rupee :: "string \<Rightarrow> string" where
  \<comment> \<open>\<open>s.replace(r, '')\<close> for the rupee sign \<open>r\<close>: every occurrence, left to right\<close>
  "remove_rupee (a # b # c # s) =
     (if [a, b, c] = rupee then remove_rupee s else a # remove_rupee (b # c # s))"
| "remove_rupee s = s"

section \<open>Python floats\<close>

text \<open>
  A Python \<open>float\<close> is modelled as an exact rational, or one of the three special
  values. The rounding of a decimal to the nearest double and the overflow of a huge
  literal to infinity are not modelled: \<open>float('1.23')\<close> is the rational 123/100.
\<close>

datatype pyfloat = Finite rat | PosInf | NegInf | NaN

definition digit_val :: "char \<Rightarrow> int" where
  "digit_val c = of_char c - 48"

definition digits_val :: "string \<Rightarrow> int" where
  \<comment> \<open>the number written by the digits of \<open>s\<close>; underscores are skipped\<close>
  "digits_val s = foldl (\<lambda>n c. 10 * n + digit_val c) 0 (filter is_digit s)"

fun digitpart :: "string \<Rightarrow> bool" where
  \<comment> \<open>the grammar \<open>digit (["_"] digit)*\<close> of Python's numeric literals\<close>
  "digitpart [] \<longleftrightarrow> False"
| "digitpart [c] \<longleftrightarrow> is_digit c"
| "digitpart (c # d # r) \<longleftrightarrow>
     is_digit c \<and> (if d = CHR ''_'' then digitpart r else digitpart (d # r))"

definition split_first :: "(char \<Rightarrow> bool) \<Rightarrow> string \<Rightarrow> string \<times> string option" where
  \<comment> \<open>the text before the first character satisfying \<open>P\<close>, and the text after it, if any\<close>
  "split_first P s =
     (takeWhile (\<lambda>c. \<not> P c) s,
      case dropWhile (\<lambda>c. \<not> P c) s of [] \<Rightarrow> None | _ # r \<Rightarrow> Some r)"


definition parse_exponent :: "string \<Rightarrow> int option" where
  \<comment> \<open>\<open>["+" | "-"] digitpart\<close>\<close>
  "parse_exponent e =
     (case e of
        [] \<Rightarrow> None
      | c # r \<Rightarrow>
          if c = CHR ''-'' then (if digitpart r then Some (- digits_val r) else None)
          else if c = CHR ''+'' then (if digitpart r then Some (digits_val r) else None)
          else if digitpart e then Some (digits_val e) else None)"

definition scale10 :: "rat \<Rightarrow> int \<Rightarrow> rat" where
  "scale10 q e = (if 0 \<le> e then q * 10 ^ nat e else q / 10 ^ nat (- e))"

definition parse_decimal :: "string \<Rightarrow> rat option" where
  \<comment> \<open>an unsigned \<open>floatnumber\<close>: \<open>digitpart ["." [digitpart]] [exponent]\<close> or
      \<open>"." digitpart [exponent]\<close>\<close>
  "parse_decimal u =
     (let (mant, ex) = split_first (\<lambda>c. c = CHR ''e'' \<or> c = CHR ''E'') u;
          (ip, fp) = split_first (\<lambda>c. c = CHR ''.'') mant;
          f = (case fp of None \<Rightarrow> [] | Some t \<Rightarrow> t);
          mant_ok = ((ip = [] \<or> digitpart ip) \<and> (f = [] \<or> digitpart f)
                     \<and> (ip \<noteq> [] \<or> f \<noteq> []));
          q = of_int (digits_val ip)
              + of_int (digits_val f) / 10 ^ length (filter is_digit f)
      in if \<not> mant_ok then None
         else case ex of
                None \<Rightarrow> Some q
              | Some e \<Rightarrow> map_option (scale10 q) (parse_exponent e))"

definition py_float :: "string \<Rightarrow> pyfloat option" where
  \<comment> \<open>\<open>float(s)\<close> for a string; \<open>None\<close> is the \<open>ValueError\<close>\<close>
  "py_float s =
     (let t = strip s;
          (neg, u) = (case t of
                        [] \<Rightarrow> (False, [])
                      | c # r \<Rightarrow> if c = CHR ''-'' then (True, r)
                                 else if c = CHR ''+'' then (False, r)
                                 else (False, t));
          l = lower u
      in if l = ''inf'' \<or> l = ''infinity'' then Some (if neg then NegInf else PosInf)
         else if l = ''nan'' then Some NaN
         else map_option (\<lambda>q. Finite (if neg then - q else q)) (parse_decimal u))"

section \<open>Field normalizers\<close>

definition percentage_text :: "string \<Rightarrow> string" where
  \<comment> \<open>the text \<open>cleaned\<close> that \<open>parse_percentage\<close> hands to \<open>float\<close>\<close>
  "percentage_text s =
     (let cleaned = strip (remove_char CHR '','' (remove_char CHR ''%'' s))
      in if startswith cleaned ''('' \<and> endswith cleaned '')''
         then CHR ''-'' # butlast (tl cleaned) else cleaned)"

definition parse_percentage :: "string option \<Rightarrow> pyfloat" where
  \<comment> \<open>\<open>FactsheetExtractor.parse_percentage\<close>; a cell is a string or \<open>None\<close>\<close>
  "parse_percentage v =
     (case v of
        None \<Rightarrow> Finite 0
      | Some s \<Rightarrow>
          if s = [] then Finite 0
          else (case py_float (percentage_text s) of
                  Some x \<Rightarrow> x
                | None \<Rightarrow> Finite 0))"

definition number_text :: "string \<Rightarrow> string" where
  \<comment> \<open>the text \<open>cleaned\<close> of \<open>parse_number\<close>; \<open>CHR 0x60\<close> is the backtick\<close>
  "number_text s = strip (remove_rupee (remove_char CHR 0x60 (remove_char CHR '','' s)))"

definition parse_number :: "string option \<Rightarrow> pyfloat option" where
  \<comment> \<open>\<open>FactsheetExtractor.parse_number\<close>\<close>
  "parse_number v =
     (case v of
        None \<Rightarrow> None
      | Some s \<Rightarrow>
          if s = [] then None
          else if number_text s = ''-'' \<or> number_text s = [] \<or> lower (number_text s) = ''na''
          then None
          else py_float (number_text s))"

subsection \<open>Comparison and arithmetic on floats\<close>

fun fl_lt :: "pyfloat \<Rightarrow> pyfloat \<Rightarrow> bool" where
  \<comment> \<open>\<open>a < b\<close>; every comparison with \<open>nan\<close> is false\<close>
  "fl_lt (Finite x) (Finite y) \<longleftrightarrow> x < y"
| "fl_lt NaN _ \<longleftrightarrow> False"
| "fl_lt _ NaN \<longleftrightarrow> False"
| "fl_lt NegInf NegInf \<longleftrightarrow> False"
| "fl_lt NegInf _ \<longleftrightarrow> True"
| "fl_lt PosInf _ \<longleftrightarrow> False"
| "fl_lt (Finite x) PosInf \<longleftrightarrow> True"
| "fl_lt (Finite x) NegInf \<longleftrightarrow> False"

definition fl_le :: "pyfloat \<Rightarrow> pyfloat \<Rightarrow> bool" where
  \<comment> \<open>\<open>a <= b\<close>\<close>
  "fl_le a b \<longleftrightarrow> fl_lt a b \<or> (a = b \<and> a \<noteq> NaN)"

definition fl_truthy :: "pyfloat \<Rightarrow> bool" where
  \<comment> \<open>the truth value of a float: only zero is false\<close>
  "fl_truthy a \<longleftrightarrow> a \<noteq> Finite 0"

definition fl_div100 :: "pyfloat \<Rightarrow> pyfloat" where
  \<comment> \<open>\<open>a / 100\<close>\<close>
  "fl_div100 a = (case a of Finite x \<Rightarrow> Finite (x / 100) | _ \<Rightarrow> a)"

fun fl_mul :: "pyfloat \<Rightarrow> pyfloat \<Rightarrow> pyfloat" where
  \<comment> \<open>\<open>a * b\<close>\<close>
  "fl_mul (Finite x) (Finite y) = Finite (x * y)"
| "fl_mul NaN _ = NaN"
| "fl_mul _ NaN = NaN"
| "fl_mul (Finite x) PosInf = (if x = 0 then NaN else if 0 < x then PosInf else NegInf)"
| "fl_mul (Finite x) NegInf = (if x = 0 then NaN else if 0 < x then NegInf else PosInf)"
| "fl_mul PosInf (Finite y) = (if y = 0 then NaN else if 0 < y then PosInf else NegInf)"
| "fl_mul NegInf (Finite y) = (if y = 0 then NaN else if 0 < y then NegInf else PosInf)"
| "fl_mul PosInf PosInf = PosInf"
| "fl_mul PosInf NegInf = NegInf"
| "fl_mul NegInf PosInf = NegInf"
| "fl_mul NegInf NegInf = PosInf"

definition round_half_even :: "rat \<Rightarrow> int" where
  "round_half_even r =
     (let f = \<lfloor>r\<rfloor>; d = r - of_int f
      in if d < 1 / 2 then f else if 1 / 2 < d then f + 1 else if even f then f else f + 1)"

definition py_round2 :: "pyfloat \<Rightarrow> pyfloat" where
  \<comment> \<open>\<open>round(a, 2)\<close>: to the nearest hundredth, ties to the even one\<close>
  "py_round2 a = (case a of Finite x \<Rightarrow> Finite (of_int (round_half_even (x * 100)) / 100) | _ \<Rightarrow> a)"

section \<open>Tables and holdings\<close>

text \<open>
  The document library hands over each table as a list of rows, each row a list of
  cells, each cell a string or \<open>None\<close>. A holding is the dictionary that the parsers
  build, with its six keys.
\<close>

type_synonym cell = "string option"
type_synonym row = "cell list"
type_synonym table = "row list"

record holding =
  security :: string
  isin :: string
  sector :: string
  pct_of_aum :: pyfloat
  market_value :: "pyfloat option"
  quantity :: "pyfloat option"

definition truthy :: "cell \<Rightarrow> bool" where
  \<comment> \<open>the truth value of a cell: \<open>None\<close> and the empty string are false\<close>
  "truthy c \<longleftrightarrow> (case c of None \<Rightarrow> False | Some s \<Rightarrow> s \<noteq> [])"

definition cell_str :: "cell \<Rightarrow> string" where
  \<comment> \<open>\<open>str(cell)\<close>\<close>
  "cell_str c = (case c of None \<Rightarrow> ''None'' | Some s \<Rightarrow> s)"

fun join :: "string \<Rightarrow> string list \<Rightarrow> string" where
  \<comment> \<open>\<open>sep.join(xs)\<close>\<close>
  "join sep [] = []"
| "join sep [x] = x"
| "join sep (x # y # ys) = x @ sep @ join sep (y # ys)"

function count_sub :: "string \<Rightarrow> string \<Rightarrow> nat" where
  \<comment> \<open>\<open>s.count(sub)\<close> for a non-empty \<open>sub\<close>: occurrences that do not overlap\<close>
  "count_sub s sub =
     (if s = [] \<or> sub = [] then 0
      else if startswith s sub then Suc (count_sub (drop (length sub) s) sub)
      else count_sub (tl s) sub)"
  by pat_completeness auto
termination
  by (relation "measure (\<lambda>(s, sub). length s)") (auto simp: neq_Nil_conv)

function collapse_ws :: "string \<Rightarrow> string" where
  \<comment> \<open>\<open>re.sub(r'\s+', ' ', s)\<close>: every run of whitespace becomes one blank\<close>
  "collapse_ws [] = []"
| "collapse_ws (c # cs) =
     (if is_space c then CHR '' '' # collapse_ws (dropWhile is_space cs)
      else c # collapse_ws cs)"
  by pat_completeness auto
termination
  by (relation "measure length") (auto simp: length_dropWhile_le less_Suc_eq_le)

definition skip_patterns :: "string list" where
  "skip_patterns =
     [''total'', ''grand total'', ''equity'', ''net receivables'',
      ''scrip'', ''security'', ''stock'', ''weightage'', ''weight'',
      ''debt'', ''cash'', ''net current'', ''receivables'', ''payables'',
      ''equity & equity'', ''related'', ''holdings'', ''portfolio'']"

definition is_valid_security :: "string \<Rightarrow> bool" where
  \<comment> \<open>\<open>FactsheetExtractor._is_valid_security\<close>\<close>
  "is_valid_security name =
     (if name = [] then False
      else let name_lower = strip (lower name)
           in if list_ex (\<lambda>pattern. contains name_lower pattern) skip_patterns then False
              else if length name < 3 \<or> length name > 100 then False
              else if \<not> list_ex is_alpha name then False
              else True)"

definition pair_holding :: "cell \<Rightarrow> cell \<Rightarrow> holding list" where
  \<comment> \<open>one side of a row of \<open>_parse_two_column_table\<close>: the name cell and the weight cell\<close>
  "pair_holding name weight =
     (let security = (if truthy name then Some (strip (cell_str name)) else None)
      in case security of
           None \<Rightarrow> []
         | Some sec \<Rightarrow>
             if sec \<noteq> [] \<and> is_valid_security sec
             then let pct = parse_percentage weight
                  in if fl_lt (Finite 0) pct
                     then [\<lparr>security = sec, isin = [], sector = ''Unknown'', pct_of_aum = pct,
                            market_value = None, quantity = None\<rparr>]
                     else []
             else [])"

definition two_column_row :: "row \<Rightarrow> holding list" where
  \<comment> \<open>the body of the loop of \<open>_parse_two_column_table\<close>\<close>
  "two_column_row row =
     (if row = [] \<or> length row < 2 then []
      else (if length row \<ge> 2 then pair_holding (row ! 0) (row ! 1) else [])
           @ (if length row \<ge> 4 then pair_holding (row ! 2) (row ! 3) else []))"

fun two_column_rows :: "row list \<Rightarrow> holding list" where
  "two_column_rows [] = []"
| "two_column_rows (row # rows) = two_column_row row @ two_column_rows rows"

definition parse_two_column_table :: "table \<Rightarrow> nat \<Rightarrow> holding list" where
  \<comment> \<open>\<open>FactsheetExtractor._parse_two_column_table\<close>\<close>
  "parse_two_column_table table header_idx = two_column_rows (drop (header_idx + 1) table)"

definition column_patterns :: "(string \<times> string list) list" where
  "column_patterns =
     [(''security'', [''scrip'', ''security'', ''stock'', ''name'', ''holding'', ''company'']),
      (''isin'', [''isin'']),
      (''sector'', [''sector'', ''industry'']),
      (''pct_of_aum'', [''weight'', ''%'', ''pct'', ''weightage'', ''allocation'', ''% of'', ''aum'']),
      (''market_value'', [''market'', ''value'', ''mv'', ''amount'']),
      (''quantity'', [''quantity'', ''qty'', ''units'', ''shares''])]"

type_synonym col_map = "string \<rightharpoonup> nat"

definition map_cell :: "nat \<Rightarrow> string \<Rightarrow> col_map \<Rightarrow> col_map" where
  \<comment> \<open>the inner loop of \<open>_map_columns\<close> for the header cell at \<open>idx\<close>\<close>
  "map_cell idx cell_lower cm =
     foldl (\<lambda>m (field, patterns).
              if list_ex (\<lambda>pattern. contains cell_lower pattern) patterns
              then (if m field = None then m(field \<mapsto> idx) else m)
              else m)
           cm column_patterns"

fun map_columns_from :: "nat \<Rightarrow> row \<Rightarrow> col_map \<Rightarrow> col_map" where
  "map_columns_from idx [] cm = cm"
| "map_columns_from idx (cell # cells) cm =
     map_columns_from (Suc idx) cells
       (if \<not> truthy cell then cm else map_cell idx (lower (cell_str cell)) cm)"

definition map_columns :: "row \<Rightarrow> col_map" where
  \<comment> \<open>\<open>FactsheetExtractor._map_columns\<close>\<close>
  "map_columns header_row = map_columns_from 0 header_row Map.empty"

definition idx_truthy :: "nat option \<Rightarrow> bool" where
  \<comment> \<open>the truth value of \<open>col_map.get(key)\<close>: \<open>None\<close> and the index 0 are false\<close>
  "idx_truthy i \<longleftrightarrow> (case i of None \<Rightarrow> False | Some n \<Rightarrow> n \<noteq> 0)"

definition non_data_labels :: "string list" where
  "non_data_labels =
     [''total'', ''grand total'', ''equity'', ''net receivables'',
      ''net receivables / (payables)'']"

definition isin_core :: "string \<Rightarrow> bool" where
  "isin_core s \<longleftrightarrow>
     length s = 12 \<and> take 2 s = ''IN'' \<and> list_all (\<lambda>c. is_upper c \<or> is_digit c) (drop 2 s)"

definition isin_match :: "string \<Rightarrow> bool" where
  \<comment> \<open>\<open>re.match(r'^IN[A-Z0-9]{10}$', s)\<close>; the dollar also matches before a final newline\<close>
  "isin_match s \<longleftrightarrow> isin_core s \<or> (s \<noteq> [] \<and> last s = CHR 0x0A \<and> isin_core (butlast s))"

definition security_index :: "col_map \<Rightarrow> nat" where
  \<comment> \<open>\<open>col_map.get('security') or col_map.get('scrip', 0)\<close>\<close>
  "security_index cm =
     (case cm ''security'' of
        Some i \<Rightarrow> if i \<noteq> 0 then i else (case cm ''scrip'' of None \<Rightarrow> 0 | Some j \<Rightarrow> j)
      | None \<Rightarrow> (case cm ''scrip'' of None \<Rightarrow> 0 | Some j \<Rightarrow> j))"

definition parse_holding_row :: "row \<Rightarrow> col_map \<Rightarrow> string \<Rightarrow> holding option" where
  \<comment> \<open>\<open>FactsheetExtractor._parse_holding_row\<close>; every index is checked against the
      length of the row, so nothing in the body raises\<close>
  "parse_holding_row row cm current_sector =
     (let security_idx = security_index cm;
          security = (if security_idx < length row \<and> truthy (row ! security_idx)
                      then Some (strip (cell_str (row ! security_idx))) else None)
      in case security of
           None \<Rightarrow> None
         | Some sec \<Rightarrow>
             if sec = [] \<or> lower sec \<in> set non_data_labels then None
             else
               let sec' = collapse_ws sec;
                   pct = (case cm ''pct_of_aum'' of
                            None \<Rightarrow> Finite 0
                          | Some i \<Rightarrow> if i < length row then parse_percentage (row ! i)
                                      else Finite 0);
                   sect = (case cm ''sector'' of
                             None \<Rightarrow> current_sector
                           | Some i \<Rightarrow> if i < length row \<and> truthy (row ! i)
                                       then strip (cell_str (row ! i)) else current_sector);
                   isn = (case cm ''isin'' of
                            None \<Rightarrow> []
                          | Some i \<Rightarrow> if i < length row \<and> truthy (row ! i)
                                      then (let isin_value = strip (cell_str (row ! i))
                                            in if isin_match isin_value then isin_value else [])
                                      else []);
                   mv = (case cm ''market_value'' of
                           None \<Rightarrow> None
                         | Some i \<Rightarrow> if i < length row then parse_number (row ! i) else None);
                   qty = (case cm ''quantity'' of
                            None \<Rightarrow> None
                          | Some i \<Rightarrow> if i < length row then parse_number (row ! i) else None)
               in Some \<lparr>security = sec', isin = isn, sector = sect, pct_of_aum = pct,
                        market_value = mv, quantity = qty\<rparr>)"

definition portfolio_keywords :: "string list" where
  "portfolio_keywords = [''scrip'', ''security'', ''stock'', ''holding'', ''weightage'', ''weight'']"

definition row_text :: "row \<Rightarrow> string" where
  \<comment> \<open>\<open>' '.join([str(cell).lower() for cell in row if cell])\<close>\<close>
  "row_text row = join '' '' (map (\<lambda>c. lower (cell_str c)) (filter truthy row))"

definition is_header :: "row \<Rightarrow> bool" where
  "is_header row \<longleftrightarrow>
     row \<noteq> [] \<and> list_ex (\<lambda>kw. contains (row_text row) kw) portfolio_keywords"

definition is_two_column_header :: "row \<Rightarrow> bool" where
  "is_two_column_header row \<longleftrightarrow>
     count_sub (row_text row) ''scrip'' \<ge> 2
     \<or> (length row \<ge> 4 \<and> contains (row_text row) ''scrip'')"

fun find_header :: "nat \<Rightarrow> row list \<Rightarrow> (row \<times> nat \<times> bool) option" where
  \<comment> \<open>the search for the header row: the row, its index and the layout flag\<close>
  "find_header idx [] = None"
| "find_header idx (row # rows) =
     (if is_header row then Some (row, idx, is_two_column_header row)
      else find_header (Suc idx) rows)"

fun single_block_rows :: "col_map \<Rightarrow> string \<Rightarrow> row list \<Rightarrow> holding list" where
  \<comment> \<open>the loop over the data rows of a single-block table\<close>
  "single_block_rows cm current_sector [] = []"
| "single_block_rows cm current_sector (row # rows) =
     (if row = [] then single_block_rows cm current_sector rows
      else case parse_holding_row row cm current_sector of
             None \<Rightarrow> single_block_rows cm current_sector rows
           | Some h \<Rightarrow> (if security h \<noteq> [] then [h] else [])
                       @ single_block_rows cm current_sector rows)"

definition table_holdings :: "table \<Rightarrow> holding list" where
  \<comment> \<open>the body of the loop of \<open>_process_tables\<close>: what one table adds to \<open>holdings\<close>\<close>
  "table_holdings table =
     (if table = [] \<or> length table < 2 then []
      else case find_header 0 (take 3 table) of
             None \<Rightarrow> []
           | Some (header_row, header_idx, is_two_column_format) \<Rightarrow>
               if is_two_column_format then parse_two_column_table table header_idx
               else let cm = map_columns header_row
                    in if \<not> idx_truthy (cm ''security'') \<and> \<not> idx_truthy (cm ''scrip'')
                       then []
                       else single_block_rows cm ''Unknown'' (drop (header_idx + 1) table))"

fun tables_holdings :: "table list \<Rightarrow> holding list" where
  "tables_holdings [] = []"
| "tables_holdings (t # ts) = table_holdings t @ tables_holdings ts"

section \<open>String similarity\<close>

text \<open>
  \<open>ISINMapper._similarity\<close> is \<open>SequenceMatcher(None, a, b).ratio()\<close> of Python's
  \<open>difflib\<close>: the longest common block is found (the earliest in \<open>a\<close>, then the
  earliest in \<open>b\<close>, among the longest), the texts to its left and to its right are
  matched in the same way, and the ratio is twice the number of matched characters over
  the total length. With the default \<open>autojunk\<close>, a character that fills more than
  1 percent of a second string of 200 characters or more does not start a block.
\<close>

definition popular :: "string \<Rightarrow> char \<Rightarrow> bool" where
  "popular b x \<longleftrightarrow> length b \<ge> 200 \<and> count_list b x > length b div 100 + 1"

definition dp_row :: "(char \<Rightarrow> bool) \<Rightarrow> char \<Rightarrow> string \<Rightarrow> nat list \<Rightarrow> nat list" where
  \<comment> \<open>\<open>newj2len\<close> from \<open>j2len\<close> for the character \<open>x\<close> of \<open>a\<close>: at \<open>j\<close>, the
      length of the common block that ends with \<open>x\<close> and \<open>b[j]\<close>\<close>
  "dp_row pop x b old =
     map (\<lambda>(y, prev). if y = x \<and> \<not> pop x then Suc prev else 0) (zip b (0 # old))"

definition update_best :: "nat \<Rightarrow> nat list \<Rightarrow> nat \<times> nat \<times> nat \<Rightarrow> nat \<times> nat \<times> nat" where
  "update_best i new best =
     foldl (\<lambda>(besti, bestj, bestsize) (j, k).
              if k > bestsize then (Suc i - k, Suc j - k, k) else (besti, bestj, bestsize))
           best (zip [0..<length new] new)"

fun scan :: "(char \<Rightarrow> bool) \<Rightarrow> string \<Rightarrow> nat \<Rightarrow> string \<Rightarrow> nat list
             \<Rightarrow> nat \<times> nat \<times> nat \<Rightarrow> nat \<times> nat \<times> nat" where
  "scan pop b i [] j2len best = best"
| "scan pop b i (x # xs) j2len best =
     (let new = dp_row pop x b j2len
      in scan pop b (Suc i) xs new (update_best i new best))"

function extend_left :: "string \<Rightarrow> string \<Rightarrow> nat \<times> nat \<times> nat \<Rightarrow> nat \<times> nat \<times> nat" where
  "extend_left a b (i, j, k) =
     (if 0 < i \<and> 0 < j \<and> a ! (i - 1) = b ! (j - 1)
      then extend_left a b (i - 1, j - 1, Suc k) else (i, j, k))"
  by pat_completeness auto
termination
  by (relation "measure (\<lambda>(a, b, i, j, k). i)") auto

function extend_right :: "string \<Rightarrow> string \<Rightarrow> nat \<times> nat \<times> nat \<Rightarrow> nat \<times> nat \<times> nat" where
  "extend_right a b (i, j, k) =
     (if i + k < length a \<and> j + k < length b \<and> a ! (i + k) = b ! (j + k)
      then extend_right a b (i, j, Suc k) else (i, j, k))"
  by pat_completeness auto
termination
  by (relation "measure (\<lambda>(a, b, i, j, k). length a - (i + k))") auto

definition find_longest_match :: "(char \<Rightarrow> bool) \<Rightarrow> string \<Rightarrow> string \<Rightarrow> nat \<times> nat \<times> nat" where
  \<comment> \<open>\<open>SequenceMatcher.find_longest_match\<close> on the whole of \<open>a\<close> and \<open>b\<close>\<close>
  "find_longest_match pop a b =
     extend_right a b (extend_left a b (scan pop b 0 a (replicate (length b) 0) (0, 0, 0)))"

function matching_total :: "(char \<Rightarrow> bool) \<Rightarrow> string \<Rightarrow> string \<Rightarrow> nat" where
  \<comment> \<open>the sum of the sizes of \<open>get_matching_blocks()\<close>. The longest block starts inside
      \<open>a\<close>, so the test \<open>i < length a\<close>, which the library does not make, is always
      true; it is written for the termination proof.\<close>
  "matching_total pop a b =
     (case find_longest_match pop a b of
        (i, j, k) \<Rightarrow>
          if k = 0 then 0
          else k
               + (if 0 < i \<and> 0 < j \<and> i < length a
                  then matching_total pop (take i a) (take j b) else 0)
               + (if i + k < length a \<and> j + k < length b
                  then matching_total pop (drop (i + k) a) (drop (j + k) b) else 0))"
  by pat_completeness auto
termination
  by (relation "measure (\<lambda>(pop, a, b). length a)") auto

definition similarity :: "string \<Rightarrow> string \<Rightarrow> rat" where
  \<comment> \<open>\<open>ISINMapper._similarity\<close>: \<open>SequenceMatcher(None, a, b).ratio()\<close>\<close>
  "similarity a b =
     (let matches = matching_total (popular b) a b;
          total = length a + length b
      in if total \<noteq> 0 then 2 * of_nat matches / of_nat total else 1)"

section \<open>The identifier resolver\<close>

text \<open>
  The catalog \<open>isin_map\<close> is a Python dictionary, which keeps the order of insertion:
  an association list with distinct keys.
\<close>

type_synonym isin_map = "(string \<times> string) list"

definition BUILTIN_ISIN_DB :: "(string \<times> string) list" where
  \<comment> \<open>the built-in table, in the order of the source\<close>
  "BUILTIN_ISIN_DB =
     [(''hdfc bank'', ''INE040A01034''), (''icici bank'', ''INE090A01021''),
      (''state bank of india'', ''INE062A01020''), (''sbi'', ''INE062A01020''),
      (''axis bank'', ''INE238A01034''), (''kotak mahindra bank'', ''INE237A01028''),
      (''indusind bank'', ''INE095A01012''), (''federal bank'', ''INE171A01029''),
      (''bandhan bank'', ''INE545U01014''), (''idfc first bank'', ''INE092T01019''),
      (''tata consultancy services'', ''INE467B01029''), (''tcs'', ''INE467B01029''),
      (''infosys'', ''INE009A01021''), (''wipro'', ''INE075A01022''),
      (''hcl technologies'', ''INE860A01027''), (''tech mahindra'', ''INE669C01036''),
      (''ltimindtree'', ''INE214T01019''), (''coforge'', ''INE591G01017''),
      (''persistent systems'', ''INE262H01013''), (''mphasis'', ''INE356A01018''),
      (''bajaj finance'', ''INE296A01024''), (''bajaj finserv'', ''INE918I01018''),
      (''hdfc life insurance'', ''INE795G01014''), (''sbi life insurance'', ''INE123W01016''),
      (''icici prudential life'', ''INE726G01019''), (''cholamandalam investment'', ''INE121A01024''),
      (''shriram finance'', ''INE721A01013''), (''muthoot finance'', ''INE414G01012''),
      (''angel one'', ''INE732I01013''), (''maruti suzuki'', ''INE585B01010''),
      (''tata motors'', ''INE155A01022''), (''mahindra & mahindra'', ''INE101A01026''),
      (''m&m'', ''INE101A01026''), (''bajaj auto'', ''INE917I01010''),
      (''hero motocorp'', ''INE158A01026''), (''eicher motors'', ''INE066A01021''),
      (''tvs motor company'', ''INE494B01023''), (''ashok leyland'', ''INE208A01029''),
      (''samvardhana motherson'', ''INE775A01035''), (''samvardhana motherson international'', ''INE775A01035''),
      (''sun pharmaceutical'', ''INE044A01036''), (''sun pharma'', ''INE044A01036''),
      (''dr reddys laboratories'', ''INE089A01023''), (''cipla'', ''INE059A01026''),
      (''divi's laboratories'', ''INE361B01024''), (''lupin'', ''INE326A01037''),
      (''aurobindo pharma'', ''INE406A01037''), (''biocon'', ''INE376G01013''),
      (''mankind pharma'', ''INE634S01028''), (''torrent pharmaceuticals'', ''INE685A01028''),
      (''hindustan unilever'', ''INE030A01027''), (''hul'', ''INE030A01027''),
      (''itc'', ''INE154A01025''), (''nestle india'', ''INE239A01016''),
      (''britannia industries'', ''INE216A01030''), (''dabur india'', ''INE016A01026''),
      (''marico'', ''INE196A01026''), (''godrej consumer products'', ''INE102D01028''),
      (''colgate palmolive'', ''INE259A01022''), (''tata consumer products'', ''INE192A01025''),
      (''reliance industries'', ''INE002A01018''), (''ongc'', ''INE213A01029''),
      (''oil india'', ''INE274J01014''), (''indian oil corporation'', ''INE242A01010''),
      (''ioc'', ''INE242A01010''), (''bharat petroleum'', ''INE029A01011''),
      (''bpcl'', ''INE029A01011''), (''gail india'', ''INE129A01019''),
      (''bharti airtel'', ''INE397D01024''), (''jio financial services'', ''INE758E01017''),
      (''indus towers'', ''INE121J01017''), (''tata steel'', ''INE081A01020''),
      (''jsw steel'', ''INE019A01038''), (''hindalco industries'', ''INE038A01020''),
      (''vedanta'', ''INE205A01025''), (''coal india'', ''INE522F01014''),
      (''nmdc'', ''INE584A01023''), (''ntpc'', ''INE733E01010''),
      (''power grid corporation'', ''INE752E01010''), (''adani power'', ''INE814H01011''),
      (''tata power'', ''INE245A01021''), (''adani green energy'', ''INE364U01010''),
      (''larsen & toubro'', ''INE018A01030''), (''l&t'', ''INE018A01030''),
      (''siemens'', ''INE003A01024''), (''abb india'', ''INE117A01022''),
      (''bharat heavy electricals'', ''INE257A01026''), (''bhel'', ''INE257A01026''),
      (''cummins india'', ''INE298A01020''), (''titan company'', ''INE280A01028''),
      (''titan'', ''INE280A01028''), (''havells india'', ''INE176B01034''),
      (''voltas'', ''INE226A01021''), (''whirlpool of india'', ''INE716A01013''),
      (''crompton greaves consumer'', ''INE299U01018''), (''dixon technologies'', ''INE935N01020''),
      (''dixon technologies (india)'', ''INE935N01020''), (''amber enterprises'', ''INE371P01015''),
      (''amber enterprises india'', ''INE371P01015''), (''kalyan jewellers'', ''INE303R01014''),
      (''kalyan jewellers india'', ''INE303R01014''), (''dlf'', ''INE271C01023''),
      (''godrej properties'', ''INE484J01027''), (''oberoi realty'', ''INE093I01010''),
      (''prestige estates projects'', ''INE811K01011''), (''prestige estates'', ''INE811K01011''),
      (''phoenix mills'', ''INE211B01039''), (''the phoenix mills'', ''INE211B01039''),
      (''brigade enterprises'', ''INE791I01019''), (''sobha'', ''INE671H01015''),
      (''macrotech developers'', ''INE670K01029''), (''bse'', ''INE118H01025''),
      (''bse ltd'', ''INE118H01025''), (''mcx'', ''INE745G01035''),
      (''multi commodity exchange'', ''INE745G01035''), (''multi commodity exchange of india'', ''INE745G01035''),
      (''icici securities'', ''INE763G01038''), (''cams'', ''INE596I01012''),
      (''kfin technologies'', ''INE138Y01010''), (''religare enterprises'', ''INE621H01010''),
      (''hindustan aeronautics'', ''INE066F01020''), (''hal'', ''INE066F01020''),
      (''bharat electronics'', ''INE263A01024''), (''bel'', ''INE263A01024''),
      (''bharat dynamics'', ''INE171Z01018''), (''zen technologies'', ''INE251B01027''),
      (''data patterns'', ''INE822Q01010''), (''paras defence'', ''INE114S01016''),
      (''cg power and industrial solutions'', ''INE067A01029''), (''cg power'', ''INE067A01029''),
      (''ge vernova t&d india'', ''INE200A01026''), (''ge vernova'', ''INE200A01026''),
      (''ge t&d india'', ''INE200A01026''), (''suzlon energy'', ''INE040H01021''),
      (''inox wind'', ''INE066P01011''), (''premier energies'', ''INE555Y01016''),
      (''waaree energies'', ''INE377N01016''), (''apar industries'', ''INE372A01015''),
      (''polycab india'', ''INE455K01017''), (''kaynes technology'', ''INE918Z01012''),
      (''kaynes technology india'', ''INE918Z01012''), (''thermax'', ''INE152A01029''),
      (''grindwell norton'', ''INE536A01023''), (''titagarh rail systems'', ''INE615H01020''),
      (''ptc industries'', ''INE591D01018''), (''asian paints'', ''INE021A01026''),
      (''pidilite industries'', ''INE318A01026''), (''upl'', ''INE628A01036''),
      (''srf'', ''INE647A01010''), (''gujarat fluorochemicals'', ''INE538A01037''),
      (''navin fluorine'', ''INE048G01026''), (''deepak nitrite'', ''INE288B01029''),
      (''avenue supermarts'', ''INE192R01011''), (''dmart'', ''INE192R01011''),
      (''trent'', ''INE849A01020''), (''trent ltd'', ''INE849A01020''),
      (''zomato'', ''INE758T01015''), (''swiggy'', ''INE044G01017''),
      (''nykaa'', ''INE388Y01029''), (''fsn e-commerce ventures'', ''INE388Y01029''),
      (''devyani international'', ''INE872J01015''), (''v2 retail'', ''INE945K01017'')]"

fun dict_set :: "isin_map \<Rightarrow> string \<Rightarrow> string \<Rightarrow> isin_map" where
  \<comment> \<open>\<open>d[key] = value\<close>: a key that is present keeps its place\<close>
  "dict_set [] key v = [(key, v)]"
| "dict_set ((k, w) # d) key v = (if k = key then (k, v) # d else (k, w) # dict_set d key v)"

definition is_word :: "char \<Rightarrow> bool" where
  \<comment> \<open>the class \<open>\w\<close>\<close>
  "is_word c \<longleftrightarrow> is_alpha c \<or> is_digit c \<or> c = CHR ''_''"

definition suffixes :: "string list" where
  "suffixes =
     ['' limited'', '' ltd'', '' ltd.'', '' pvt'', '' private'',
      '' public'', '' inc'', '' corp'', '' corporation'',
      '' (india)'', '' india'', '' & co'', '' co.'']"

definition normalize_name :: "string \<Rightarrow> string" where
  \<comment> \<open>\<open>ISINMapper._normalize_name\<close>\<close>
  "normalize_name name =
     (let name = strip (lower name);
          name = foldl (\<lambda>name suffix. if endswith name suffix
                                      then take (length name - length suffix) name else name)
                       name suffixes;
          name = filter (\<lambda>c. is_word c \<or> is_space c) name
      in strip (collapse_ws name))"

fun load_rows :: "isin_map \<Rightarrow> (string \<times> string) list \<Rightarrow> isin_map" where
  \<comment> \<open>the loop of \<open>_load_csv\<close> over the rows of the reference file; a row is the pair of
      \<open>str(row[name_col])\<close> and \<open>str(row[isin_col])\<close>\<close>
  "load_rows m [] = m"
| "load_rows m ((n, i) # rows) =
     (let name = strip n; isn = strip i
      in load_rows (if name \<noteq> [] \<and> isn \<noteq> [] \<and> startswith isn ''INE''
                    then dict_set m (normalize_name name) isn else m) rows)"

definition isin_mapper :: "(string \<times> string) list option \<Rightarrow> isin_map" where
  \<comment> \<open>\<open>ISINMapper.__init__\<close>: the built-in table, then the rows of the reference file.
      \<open>None\<close>: no file was given or found, it could not be read, or it lacks the two
      columns.\<close>
  "isin_mapper csv = (case csv of None \<Rightarrow> BUILTIN_ISIN_DB | Some rows \<Rightarrow> load_rows BUILTIN_ISIN_DB rows)"

definition score :: "string \<Rightarrow> string \<Rightarrow> rat" where
  \<comment> \<open>the score of one catalog key in \<open>get_isin\<close>\<close>
  "score normalized ref_name =
     (let s = similarity normalized ref_name
      in if contains ref_name normalized \<or> contains normalized ref_name
         then max s (85 / 100) else s)"

fun best_match :: "string \<Rightarrow> isin_map \<Rightarrow> string option \<times> rat \<Rightarrow> string option \<times> rat" where
  \<comment> \<open>the loop of \<open>get_isin\<close> over the catalog, on the pair of \<open>best_match\<close> and
      \<open>best_score\<close>\<close>
  "best_match normalized [] best = best"
| "best_match normalized ((ref_name, isn) # rest) (bm, best_score) =
     best_match normalized rest
       (if score normalized ref_name > best_score
        then (Some isn, score normalized ref_name) else (bm, best_score))"

definition get_isin :: "isin_map \<Rightarrow> string \<Rightarrow> rat \<Rightarrow> string option" where
  \<comment> \<open>\<open>ISINMapper.get_isin\<close>; the result \<open>None\<close> is Python's \<open>None\<close>, the value of
      \<open>best_match\<close> when a threshold of zero or less lets an empty search through\<close>
  "get_isin m company_name threshold =
     (if company_name = [] then Some ''-''
      else let normalized = normalize_name company_name
           in case map_of m normalized of
                Some isn \<Rightarrow> Some isn
              | None \<Rightarrow>
                  (case best_match normalized m (None, 0) of
                     (bm, best_score) \<Rightarrow> if best_score \<ge> threshold then bm else Some ''-''))"

definition get_isin_default :: "isin_map \<Rightarrow> string \<Rightarrow> string option" where
  \<comment> \<open>\<open>get_isin(company_name)\<close> with the default threshold 0.8\<close>
  "get_isin_default m company_name = get_isin m company_name (8 / 10)"

section \<open>Sector and issuer labels\<close>

definition SECTOR_MAPPINGS :: "(string \<times> string) list" where
  "SECTOR_MAPPINGS =
     [(''it - software'', ''Information Technology''),
      (''it-software'', ''Information Technology''),
      (''information technology'', ''Information Technology''),
      (''software'', ''Information Technology''),
      (''banks'', ''Banking''),
      (''banking'', ''Banking''),
      (''private sector bank'', ''Banking''),
      (''public sector bank'', ''Banking''),
      (''finance'', ''Financial Services''),
      (''financial services'', ''Financial Services''),
      (''nbfc'', ''Financial Services''),
      (''pharmaceuticals & biotechnology'', ''Pharmaceuticals''),
      (''pharmaceuticals'', ''Pharmaceuticals''),
      (''pharma'', ''Pharmaceuticals''),
      (''healthcare'', ''Healthcare''),
      (''consumer durables'', ''Consumer Durables''),
      (''consumer goods'', ''Consumer Goods''),
      (''fmcg'', ''FMCG''),
      (''retailing'', ''Retailing''),
      (''retail'', ''Retailing''),
      (''auto components'', ''Automobile''),
      (''automobiles'', ''Automobile''),
      (''automobile'', ''Automobile''),
      (''auto'', ''Automobile''),
      (''telecom - services'', ''Telecom''),
      (''telecom'', ''Telecom''),
      (''telecommunications'', ''Telecom''),
      (''realty'', ''Real Estate''),
      (''real estate'', ''Real Estate''),
      (''construction'', ''Construction''),
      (''capital markets'', ''Capital Markets''),
      (''chemicals & petrochemicals'', ''Chemicals''),
      (''chemicals'', ''Chemicals''),
      (''industrial products'', ''Industrial Products''),
      (''industrial manufacturing'', ''Industrial Manufacturing''),
      (''aerospace & defense'', ''Aerospace & Defense''),
      (''defence'', ''Aerospace & Defense''),
      (''electrical equipment'', ''Electrical Equipment''),
      (''power'', ''Power''),
      (''oil & gas'', ''Oil & Gas''),
      (''energy'', ''Energy''),
      (''metals & mining'', ''Metals & Mining''),
      (''cement'', ''Cement & Construction Materials'')]"

definition AMC_MAPPINGS :: "(string \<times> string) list" where
  "AMC_MAPPINGS =
     [(''motilaloswal'', ''Motilal Oswal''),
      (''motilal oswal'', ''Motilal Oswal''),
      (''hdfc'', ''HDFC''),
      (''icici prudential'', ''ICICI Prudential''),
      (''sbi'', ''SBI''),
      (''axis'', ''Axis''),
      (''kotak'', ''Kotak''),
      (''nippon india'', ''Nippon India''),
      (''aditya birla'', ''Aditya Birla Sun Life''),
      (''dsp'', ''DSP''),
      (''tata'', ''Tata''),
      (''uti'', ''UTI''),
      (''franklin templeton'', ''Franklin Templeton''),
      (''mirae asset'', ''Mirae Asset''),
      (''pgim'', ''PGIM India''),
      (''invesco'', ''Invesco India''),
      (''edelweiss'', ''Edelweiss''),
      (''canara robeco'', ''Canara Robeco''),
      (''bandhan'', ''Bandhan''),
      (''quant'', ''Quant''),
      (''parag parikh'', ''PPFAS''),
      (''ppfas'', ''PPFAS''),
      (''groww'', ''Groww''),
      (''baroda bnp'', ''Baroda BNP Paribas'')]"

definition sector_keywords :: "(string \<times> string list) list" where
  "sector_keywords =
     [(''Banking'',
        [''bank'', ''hdfc bank'', ''icici bank'', ''axis bank'', ''kotak'', ''sbi'', ''indusind'', ''federal bank'']),
      (''Information Technology'',
        [''infosys'', ''tcs'', ''wipro'', ''tech mahindra'', ''hcl tech'', ''coforge'', ''ltimindtree'', ''persistent'', ''mphasis'']),
      (''Pharmaceuticals'',
        [''pharma'', ''dr.'', ''cipla'', ''sun pharma'', ''lupin'', ''divi'', ''mankind'', ''aurobindo'', ''biocon'']),
      (''Financial Services'',
        [''bajaj finance'', ''bajaj finserv'', ''cholamandalam'', ''shriram'', ''muthoot'', ''manappuram'', ''piramal'', ''angel one'']),
      (''Automobile'',
        [''auto'', ''motor'', ''maruti'', ''tata motors'', ''mahindra'', ''hero motocorp'', ''bajaj auto'', ''tvs'', ''ashok leyland'', ''motherson'', ''samvardhana'']),
      (''FMCG'',
        [''hindustan unilever'', ''itc'', ''nestle'', ''britannia'', ''dabur'', ''marico'', ''godrej consumer'', ''colgate'', ''p&g'']),
      (''Telecom'',
        [''bharti airtel'', ''jio'', ''vodafone'', ''indus towers'', ''telecom'']),
      (''Energy'',
        [''reliance industries'', ''ongc'', ''oil india'', ''bpcl'', ''ioc'', ''gail'', ''ntpc'', ''power grid'', ''adani power'', ''tata power'']),
      (''Metals & Mining'',
        [''tata steel'', ''jsw steel'', ''hindalco'', ''vedanta'', ''coal india'', ''nmdc'', ''hindustan zinc'']),
      (''Real Estate'',
        [''dlf'', ''godrej properties'', ''oberoi realty'', ''prestige'', ''phoenix mills'', ''brigade'', ''sobha'', ''macrotech'']),
      (''Consumer Durables'',
        [''titan'', ''havells'', ''voltas'', ''whirlpool'', ''crompton'', ''dixon'', ''amber'', ''kalyan jewellers'', ''v2 retail'']),
      (''Retailing'',
        [''avenue supermarts'', ''trent'', ''dmart'', ''zomato'', ''swiggy'', ''nykaa'', ''tata consumer'', ''devyani'']),
      (''Capital Markets'',
        [''bse'', ''mcx'', ''angel one'', ''icici securities'', ''exchange'', ''cams'', ''kfin'', ''religare'']),
      (''Aerospace & Defense'',
        [''hal'', ''hindustan aeronautics'', ''bharat dynamics'', ''bharat electronics'', ''bel'', ''zen technologies'', ''paras defence'', ''data patterns'']),
      (''Electrical Equipment'',
        [''abb'', ''siemens'', ''cg power'', ''ge vernova'', ''suzlon'', ''inox wind'', ''premier energies'', ''waaree'', ''apar'', ''polycab'', ''kaynes'']),
      (''Industrial Manufacturing'',
        [''larsen'', ''l&t'', ''thermax'', ''cummins'', ''grindwell norton'', ''titagarh'', ''ptc industries'']),
      (''Chemicals'',
        [''asian paints'', ''pidilite'', ''upl'', ''srf'', ''gujarat fluorochemicals'', ''navin fluorine'', ''deepak nitrite''])]"

fun title_from :: "bool \<Rightarrow> string \<Rightarrow> string" where
  \<comment> \<open>\<open>s.title()\<close>: a letter after a letter is lowered, any other letter is raised\<close>
  "title_from prev_cased [] = []"
| "title_from prev_cased (c # cs) =
     (if is_alpha c then (if prev_cased then lower_char c else upper_char c) # title_from True cs
      else c # title_from False cs)"

definition title :: "string \<Rightarrow> string" where
  "title s = title_from False s"

definition normalize_sector :: "string \<Rightarrow> string" where
  \<comment> \<open>\<open>FactsheetExtractor.normalize_sector\<close>\<close>
  "normalize_sector sect =
     (if sect = [] then ''Unknown''
      else case map_of SECTOR_MAPPINGS (strip (lower sect)) of
             Some label \<Rightarrow> label
           | None \<Rightarrow> title sect)"

definition normalize_amc :: "string \<Rightarrow> string" where
  \<comment> \<open>\<open>FactsheetExtractor.normalize_amc\<close>: the first key of the table that occurs in
      the name decides\<close>
  "normalize_amc amc =
     (if amc = [] then ''Unknown''
      else case find (\<lambda>(key, label). contains (strip (lower amc)) key) AMC_MAPPINGS of
             Some (key, label) \<Rightarrow> label
           | None \<Rightarrow> title amc)"

definition guess_sector :: "string \<Rightarrow> (string \<times> string list) list \<Rightarrow> string" where
  \<comment> \<open>\<open>FactsheetExtractor._guess_sector\<close>\<close>
  "guess_sector sec keyword_map =
     (case find (\<lambda>(sect, keywords). list_ex (\<lambda>kw. contains (lower sec) kw) keywords) keyword_map of
        Some (sect, keywords) \<Rightarrow> sect
      | None \<Rightarrow> ''Other'')"

section \<open>File names\<close>

definition basename :: "string \<Rightarrow> string" where
  \<comment> \<open>\<open>os.path.basename\<close>: the text after the last slash\<close>
  "basename p = rev (takeWhile (\<lambda>c. c \<noteq> CHR ''/'') (rev p))"

definition splitext_root :: "string \<Rightarrow> string" where
  \<comment> \<open>\<open>os.path.splitext(p)[0]\<close>: the last dot of the base name starts the extension,
      unless only dots precede it\<close>
  "splitext_root p =
     (let name = basename p;
          dir = take (length p - length name) p
      in if CHR ''.'' \<in> set name
         then (let stem = rev (tl (dropWhile (\<lambda>c. c \<noteq> CHR ''.'') (rev name)))
               in if list_ex (\<lambda>c. c \<noteq> CHR ''.'') stem then dir @ stem else p)
         else p)"

fun split_ws :: "string \<Rightarrow> string list" where
  \<comment> \<open>\<open>s.split()\<close>: the maximal runs of characters that are not whitespace\<close>
  "split_ws [] = []"
| "split_ws (c # cs) =
     (if is_space c then split_ws cs
      else if cs = [] \<or> is_space (hd cs) then [c] # split_ws cs
      else (case split_ws cs of [] \<Rightarrow> [[c]] | w # ws \<Rightarrow> (c # w) # ws))"

definition yyyymm_pdf :: "string \<Rightarrow> string option" where
  \<comment> \<open>group 1 of \<open>re.search(r'(\d{6})\.pdf$', filename, re.IGNORECASE)\<close>; the dollar
      also matches before a final newline\<close>
  "yyyymm_pdf filename =
     (let f = (if filename \<noteq> [] \<and> last filename = CHR 0x0A then butlast filename else filename);
          tail = drop (length f - 10) f
      in if length f \<ge> 10 \<and> list_all is_digit (take 6 tail) \<and> lower (drop 6 tail) = ''.pdf''
         then Some (take 6 tail) else None)"

definition yyyy_mm_here :: "string \<Rightarrow> (string \<times> string) option" where
  \<comment> \<open>\<open>(\d{4})[-_]?(\d{2})\<close> at the start of \<open>s\<close>\<close>
  "yyyy_mm_here s =
     (if length s \<ge> 4 \<and> list_all is_digit (take 4 s)
      then (let r = drop 4 s;
                r' = (case r of [] \<Rightarrow> r
                      | c # t \<Rightarrow> if c = CHR ''-'' \<or> c = CHR ''_'' then t else r)
            in if length r' \<ge> 2 \<and> list_all is_digit (take 2 r')
               then Some (take 4 s, take 2 r') else None)
      else None)"

fun yyyy_mm :: "string \<Rightarrow> (string \<times> string) option" where
  \<comment> \<open>the groups of \<open>re.search(r'(\d{4})[-_]?(\d{2})', filename)\<close>: the leftmost match\<close>
  "yyyy_mm [] = None"
| "yyyy_mm (c # cs) =
     (case yyyy_mm_here (c # cs) of Some g \<Rightarrow> Some g | None \<Rightarrow> yyyy_mm cs)"

definition extract_date_from_filename :: "string \<Rightarrow> string \<Rightarrow> string" where
  \<comment> \<open>\<open>FactsheetExtractor.extract_date_from_filename\<close>; \<open>today\<close> is
      \<open>datetime.now().strftime("%Y-%m-01")\<close>\<close>
  "extract_date_from_filename today filename =
     (case yyyymm_pdf filename of
        Some date_str \<Rightarrow> take 4 date_str @ ''-'' @ take 2 (drop 4 date_str) @ ''-01''
      | None \<Rightarrow>
          (case yyyy_mm filename of
             Some (y, m) \<Rightarrow> y @ ''-'' @ m @ ''-01''
           | None \<Rightarrow> today))"

definition extract_amc_from_filename :: "string \<Rightarrow> string" where
  \<comment> \<open>\<open>FactsheetExtractor.extract_amc_from_filename\<close>\<close>
  "extract_amc_from_filename filename =
     (case split_ws (replace_char CHR ''_'' CHR '' '' (splitext_root filename)) of
        [] \<Rightarrow> ''Unknown''
      | part # parts \<Rightarrow> normalize_amc part)"

section \<open>The document pipeline\<close>

text \<open>
  The pipeline takes three things from outside: the regular-expression engine, the
  document library and the clock. The patterns that the source runs over the free text
  of a document are named, and the engine is a parameter: \<open>re_search\<close> gives
  \<open>match.group(1)\<close> of \<open>re.search(pattern, text, re.IGNORECASE)\<close>, \<open>re_findall\<close>
  the pairs of \<open>re.findall(pattern, text)\<close>. \<open>pdf_open\<close> gives the pages of the
  document at a path, or \<open>None\<close> when the document cannot be opened or read.
\<close>

datatype pattern =
    FundNameCap | FundNameAny
  | AumLatest | AumPlain | AumNetAssets | AumFundSize | AumMonthly | AumGeneral
  | AsOnDate | HoldingLine | SectorLine

record page =
  page_text :: "string option"
  page_tables :: "table list"

record env =
  re_search :: "pattern \<Rightarrow> string \<Rightarrow> string option"
  re_findall :: "pattern \<Rightarrow> string \<Rightarrow> (string \<times> string) list"
  pdf_open :: "string \<Rightarrow> page list option"
  today :: string

record metadata =
  meta_amc :: string
  meta_fund_name :: string
  meta_date :: string
  meta_aum_cr :: "pyfloat option"

record holding_record = holding +
  date :: string
  amc :: string
  fund_name :: string

fun first_fund_name :: "env \<Rightarrow> string \<Rightarrow> pattern list \<Rightarrow> string" where
  "first_fund_name e text [] = ''Unknown Fund''"
| "first_fund_name e text (p # ps) =
     (case re_search e p text of
        None \<Rightarrow> first_fund_name e text ps
      | Some g \<Rightarrow>
          (let fund_name = collapse_ws (strip g)
           in if length fund_name > 10 \<and> contains (lower fund_name) ''fund'' then fund_name
              else first_fund_name e text ps))"

definition extract_fund_name_from_text :: "env \<Rightarrow> string \<Rightarrow> string" where
  \<comment> \<open>\<open>FactsheetExtractor.extract_fund_name_from_text\<close>\<close>
  "extract_fund_name_from_text e text = first_fund_name e text [FundNameCap, FundNameAny]"

fun first_aum :: "env \<Rightarrow> string \<Rightarrow> pattern list \<Rightarrow> pyfloat option" where
  "first_aum e text [] = None"
| "first_aum e text (p # ps) =
     (case re_search e p text of
        None \<Rightarrow> first_aum e text ps
      | Some g \<Rightarrow>
          (case py_float (remove_char CHR '','' g) of
             None \<Rightarrow> first_aum e text ps
           | Some aum \<Rightarrow>
               if fl_le (Finite 10) aum \<and> fl_le aum (Finite 1000000) then Some aum
               else first_aum e text ps))"

definition extract_aum_from_text :: "env \<Rightarrow> string \<Rightarrow> pyfloat option" where
  \<comment> \<open>\<open>FactsheetExtractor.extract_aum_from_text\<close>\<close>
  "extract_aum_from_text e text =
     first_aum e text [AumLatest, AumPlain, AumNetAssets, AumFundSize, AumMonthly, AumGeneral]"

definition skip_words :: "string list" where
  "skip_words = [''page'', ''total'', ''scheme'', ''fund'', ''year'', ''month'', ''return'', ''nav'']"

fun text_holdings :: "(string \<times> string) list \<Rightarrow> holding list option" where
  \<comment> \<open>the loop of \<open>_extract_holdings_from_text\<close> over the matches; \<open>None\<close>: \<open>float\<close>
      raised, and the exception leaves the function\<close>
  "text_holdings [] = Some []"
| "text_holdings ((name, num) # ms) =
     (let sec = strip name
      in case py_float num of
           None \<Rightarrow> None
         | Some pct \<Rightarrow>
             if length sec < 3 \<or> fl_lt (Finite 100) pct \<or> fl_le pct (Finite 0)
             then text_holdings ms
             else if list_ex (\<lambda>word. contains (lower sec) word) skip_words
             then text_holdings ms
             else map_option
                    (\<lambda>hs. \<lparr>security = sec, isin = [], sector = ''Unknown'', pct_of_aum = pct,
                            market_value = None, quantity = None\<rparr> # hs)
                    (text_holdings ms))"

definition extract_holdings_from_text :: "env \<Rightarrow> string \<Rightarrow> holding list option" where
  \<comment> \<open>\<open>FactsheetExtractor._extract_holdings_from_text\<close>\<close>
  "extract_holdings_from_text e text = text_holdings (re_findall e HoldingLine text)"

definition process_tables :: "env \<Rightarrow> table list \<Rightarrow> string \<Rightarrow> holding list option" where
  \<comment> \<open>\<open>FactsheetExtractor._process_tables\<close>\<close>
  "process_tables e tables full_text =
     (let holdings = tables_holdings tables
      in if holdings = [] then extract_holdings_from_text e full_text else Some holdings)"

definition all_text :: "page list \<Rightarrow> string" where
  "all_text pages = concat (map (\<lambda>p. (case page_text p of None \<Rightarrow> [] | Some t \<Rightarrow> t) @ [CHR 0x0A]) pages)"

definition all_tables :: "page list \<Rightarrow> table list" where
  "all_tables pages =
     concat (map (\<lambda>p. filter (\<lambda>t. t \<noteq> [] \<and> length t > 1) (page_tables p)) pages)"

definition extract_portfolio_table :: "env \<Rightarrow> string \<Rightarrow> holding list \<times> metadata" where
  \<comment> \<open>\<open>FactsheetExtractor.extract_portfolio_table\<close>: an exception, from the document
      library or from the text fallback, is logged and the values built so far are returned\<close>
  "extract_portfolio_table e pdf_path =
     (let md = \<lparr>meta_amc = [], meta_fund_name = [], meta_date = [], meta_aum_cr = None\<rparr>
      in case pdf_open e pdf_path of
           None \<Rightarrow> ([], md)
         | Some pages \<Rightarrow>
             (let text = all_text pages;
                  md = md\<lparr>meta_fund_name := extract_fund_name_from_text e text,
                          meta_aum_cr := extract_aum_from_text e text\<rparr>;
                  md = (case re_search e AsOnDate text of
                          None \<Rightarrow> md | Some d \<Rightarrow> md\<lparr>meta_date := d\<rparr>)
              in case process_tables e (all_tables pages) text of
                   None \<Rightarrow> ([], md)
                 | Some holdings \<Rightarrow> (holdings, md)))"

type_synonym allocation = "(string \<times> pyfloat) list"

fun sector_matches :: "allocation \<Rightarrow> (string \<times> string) list \<Rightarrow> allocation \<times> bool" where
  \<comment> \<open>the inner loop of \<open>extract_sector_allocation\<close>; the flag is false when \<open>float\<close>
      raised\<close>
  "sector_matches alloc [] = (alloc, True)"
| "sector_matches alloc ((name, num) # ms) =
     (let sect = strip name
      in case py_float num of
           None \<Rightarrow> (alloc, False)
         | Some pct \<Rightarrow>
             if length sect > 3 \<and> fl_lt (Finite 0) pct \<and> fl_le pct (Finite 100)
             then (let normalized_sector = normalize_sector sect
                   in sector_matches
                        (if map_of alloc normalized_sector = None
                         then alloc @ [(normalized_sector, pct)] else alloc) ms)
             else sector_matches alloc ms)"

fun sector_pages :: "env \<Rightarrow> allocation \<Rightarrow> page list \<Rightarrow> allocation" where
  "sector_pages e alloc [] = alloc"
| "sector_pages e alloc (p # ps) =
     (case sector_matches alloc
             (re_findall e SectorLine (case page_text p of None \<Rightarrow> [] | Some t \<Rightarrow> t)) of
        (alloc', ok) \<Rightarrow> if ok then sector_pages e alloc' ps else alloc')"

definition extract_sector_allocation :: "env \<Rightarrow> string \<Rightarrow> allocation" where
  \<comment> \<open>\<open>FactsheetExtractor.extract_sector_allocation\<close>\<close>
  "extract_sector_allocation e pdf_path =
     (case pdf_open e pdf_path of None \<Rightarrow> [] | Some pages \<Rightarrow> sector_pages e [] pages)"

definition enrich :: "isin_map \<Rightarrow> pyfloat option \<Rightarrow> holding \<Rightarrow> holding" where
  \<comment> \<open>the body of the first loop of \<open>process_pdf\<close>. \<open>get_isin\<close> with the default
      threshold never returns \<open>None\<close>.\<close>
  "enrich m aum_cr h =
     (let h = h\<lparr>sector := (if sector h = ''Unknown'' then guess_sector (security h) sector_keywords
                             else normalize_sector (sector h))\<rparr>;
          h = (if isin h = []
               then h\<lparr>isin := (case get_isin_default m (security h) of Some i \<Rightarrow> i | None \<Rightarrow> [])\<rparr>
               else h)
      in case aum_cr of
           None \<Rightarrow> h
         | Some aum \<Rightarrow>
             if fl_truthy aum \<and> fl_lt (Finite 0) (pct_of_aum h)
             then (if \<not> (case market_value h of None \<Rightarrow> False | Some v \<Rightarrow> fl_truthy v)
                   then h\<lparr>market_value := Some (py_round2 (fl_mul (fl_div100 (pct_of_aum h)) aum))\<rparr>
                   else h)
             else h)"

definition make_record :: "string \<Rightarrow> metadata \<Rightarrow> holding \<Rightarrow> holding_record" where
  \<comment> \<open>the body of the second loop of \<open>process_pdf\<close>: one \<open>HoldingRecord\<close>\<close>
  "make_record d md h =
     \<lparr>security = security h, isin = isin h, sector = sector h, pct_of_aum = pct_of_aum h,
      market_value = market_value h, quantity = quantity h,
      date = d, amc = meta_amc md, fund_name = meta_fund_name md\<rparr>"

record pdf_result =
  success :: bool
  filename :: string
  res_metadata :: "metadata option"
  holdings :: "holding_record list"
  sector_allocation :: allocation
  errors :: "string list"

definition process_pdf_body ::
  "env \<Rightarrow> isin_map \<Rightarrow> string \<Rightarrow> string
   \<Rightarrow> string + (metadata \<times> holding_record list \<times> allocation)" where
  \<comment> \<open>the \<open>try\<close> block of \<open>process_pdf\<close>; \<open>Inl\<close> would be an exception with its
      message, and no statement of the block raises one\<close>
  "process_pdf_body e m pdf_path fname =
     (let d = extract_date_from_filename (today e) fname;
          a = extract_amc_from_filename fname;
          (hs, md) = extract_portfolio_table e pdf_path;
          md = md\<lparr>meta_date := d, meta_amc := (if a \<noteq> ''Unknown'' then a else meta_amc md)\<rparr>;
          alloc = extract_sector_allocation e pdf_path;
          hs = map (enrich m (meta_aum_cr md)) hs
      in Inr (md, map (make_record d md) hs, alloc))"

definition process_pdf :: "env \<Rightarrow> isin_map \<Rightarrow> string \<Rightarrow> string option \<Rightarrow> pdf_result" where
  \<comment> \<open>\<open>FactsheetExtractor.process_pdf\<close>\<close>
  "process_pdf e m pdf_path fname_opt =
     (let fname = (case fname_opt of None \<Rightarrow> basename pdf_path | Some f \<Rightarrow> f)
      in case process_pdf_body e m pdf_path fname of
           Inr (md, records, alloc) \<Rightarrow>
             \<lparr>success = True, filename = fname, res_metadata = Some md, holdings = records,
              sector_allocation = alloc, errors = []\<rparr>
         | Inl msg \<Rightarrow>
             \<lparr>success = False, filename = fname, res_metadata = None, holdings = [],
              sector_allocation = [], errors = [msg]\<rparr>)"

record allocation_entry =
  alloc_filename :: string
  alloc_amc :: string
  alloc_fund_name :: string
  alloc_date :: string
  alloc_allocation :: allocation

record batch_result =
  all_holdings :: "holding_record list"
  all_metadata :: "(string \<times> metadata) list"
  all_sector_allocations :: "allocation_entry list"
  batch_errors :: "string list"

definition batch_step :: "env \<Rightarrow> isin_map \<Rightarrow> batch_result \<Rightarrow> string \<times> string \<Rightarrow> batch_result" where
  \<comment> \<open>the body of the loop of \<open>process_multiple_pdfs\<close>\<close>
  "batch_step e m acc file =
     (case file of
        (pdf_path, fname) \<Rightarrow>
          (let result = process_pdf e m pdf_path (Some fname)
           in if success result
              then (case res_metadata result of
                      None \<Rightarrow> acc
                    | Some md \<Rightarrow>
                        acc\<lparr>all_holdings := all_holdings acc @ holdings result,
                            all_metadata := all_metadata acc @ [(fname, md)],
                            all_sector_allocations := all_sector_allocations acc @
                              [\<lparr>alloc_filename = fname, alloc_amc = meta_amc md,
                                alloc_fund_name = meta_fund_name md, alloc_date = meta_date md,
                                alloc_allocation = sector_allocation result\<rparr>]\<rparr>)
              else acc\<lparr>batch_errors := batch_errors acc @ errors result\<rparr>))"

definition process_multiple_pdfs :: "env \<Rightarrow> isin_map \<Rightarrow> (string \<times> string) list \<Rightarrow> batch_result" where
  \<comment> \<open>\<open>FactsheetExtractor.process_multiple_pdfs\<close>\<close>
  "process_multiple_pdfs e m pdf_files =
     foldl (batch_step e m)
       \<lparr>all_holdings = [], all_metadata = [], all_sector_allocations = [], batch_errors = []\<rparr>
       pdf_files"

section \<open>The claims in the words of the specification\<close>

definition pair_accepted :: "string \<Rightarrow> pyfloat \<Rightarrow> bool" where
  \<comment> \<open>the validity filter of a dual-block pair as the specification words it: a name of
      3 to 100 characters with a letter that matches no skip label, and a weight above 0\<close>
  "pair_accepted name pct \<longleftrightarrow>
     3 \<le> length name \<and> length name \<le> 100 \<and> (\<exists>c \<in> set name. is_alpha c)
     \<and> (\<forall>p \<in> set skip_patterns. \<not> contains (strip (lower name)) p)
     \<and> fl_lt (Finite 0) pct"

section \<open>Sample documents\<close>

text \<open>
  A small library of documents, on which the theorems below are instantiated: a
  dual-block factsheet, a single-block factsheet behind a numbering column with a
  parenthesised weight and a stated fund size, and a path at which no document can be
  opened.
\<close>

definition sample_pages :: "string \<Rightarrow> page list option" where
  "sample_pages path =
     (if path = ''in/HDFC_BlueChip_202412.pdf''
      then Some [\<lparr>page_text = Some ''HDFC Blue Chip Fund'',
                  page_tables =
                    [[[Some ''Scrip'', Some ''Weightage'', Some ''Scrip'', Some ''Weightage''],
                      [Some ''Reliance Industries'', Some ''8.5%'', Some ''TCS'', Some ''6.2%'']]]\<rparr>]
      else if path = ''in/Axis_Midcap_202501.pdf''
      then Some [\<lparr>page_text = Some ''AUM: 1,000 Cr'',
                  page_tables =
                    [[[Some ''No'', Some ''Security'', Some ''Weight'', Some ''Value''],
                      [Some ''1'', Some ''Infosys'', Some ''10.0%'', None],
                      [Some ''2'', Some ''Wipro'', Some ''(1.23)%'', None],
                      [Some ''3'', Some ''Cipla'', Some ''5%'', Some ''49.5''],
                      [Some ''4'', Some ''Lupin'', None, None],
                      [None, Some ''Total'', Some ''13.77%'', None]]]\<rparr>]
      else None)"

definition sample_env :: env where
  "sample_env =
     \<lparr>re_search = (\<lambda>p text. if p = AumPlain \<and> contains text ''AUM: 1,000 Cr''
                               then Some ''1,000'' else None),
      re_findall = (\<lambda>p text. []),
      pdf_open = sample_pages,
      today = ''2026-11-01''\<rparr>"

(*VERIFICATION*)
section \<open>Properties of the float parser\<close>






















section \<open>Claim C8: parsing percentages and amounts\<close>













section \<open>Claim C7: dual-block rows\<close>

lemma is_valid_security_iff:
  "is_valid_security name \<longleftrightarrow>
     3 \<le> length name \<and> length name \<le> 100 \<and> (\<exists>c \<in> set name. is_alpha c)
     \<and> (\<forall>p \<in> set skip_patterns. \<not> contains (strip (lower name)) p)"
  by (auto simp: is_valid_security_def Let_def list_ex_iff)

lemma pair_holding_eq:
  "pair_holding name weight =
     (if truthy name \<and> pair_accepted (strip (cell_str name)) (parse_percentage weight)
      then [\<lparr>security = strip (cell_str name), isin = [], sector = ''Unknown'',
             pct_of_aum = parse_percentage weight, market_value = None, quantity = None\<rparr>]
      else [])"
  by (auto simp: pair_holding_def pair_accepted_def is_valid_security_iff Let_def)

lemma pair_holding_accepted:
  assumes "h \<in> set (pair_holding name weight)"
  shows "pair_accepted (security h) (pct_of_aum h)"
  using assms by (simp add: pair_holding_eq split: if_splits)

lemma two_column_row_accepted:
  assumes "h \<in> set (two_column_row row)"
  shows "pair_accepted (security h) (pct_of_aum h)"
  using assms pair_holding_accepted by (auto simp: two_column_row_def split: if_splits)

lemma two_column_rows_accepted:
  "h \<in> set (two_column_rows rows) \<Longrightarrow> pair_accepted (security h) (pct_of_aum h)"
  by (induction rows) (auto dest: two_column_row_accepted)

lemma two_column_rows_append:
  "two_column_rows (pre @ post) = two_column_rows pre @ two_column_rows post"
  by (induction pre) auto

lemma reliance_row:
  "two_column_row [Some ''Reliance Industries'', Some ''8.5%'', Some ''TCS'', Some ''6.2%'']
   = [\<lparr>security = ''Reliance Industries'', isin = [], sector = ''Unknown'',
        pct_of_aum = Finite (17 / 2), market_value = None, quantity = None\<rparr>,
      \<lparr>security = ''TCS'', isin = [], sector = ''Unknown'',
        pct_of_aum = Finite (31 / 5), market_value = None, quantity = None\<rparr>]"
  by code_simp

lemma reliance_table:
  "table_holdings
     [[Some ''Scrip'', Some ''Weightage'', Some ''Scrip'', Some ''Weightage''],
      [Some ''Reliance Industries'', Some ''8.5%'', Some ''TCS'', Some ''6.2%'']]
   = [\<lparr>security = ''Reliance Industries'', isin = [], sector = ''Unknown'',
        pct_of_aum = Finite (17 / 2), market_value = None, quantity = None\<rparr>,
      \<lparr>security = ''TCS'', isin = [], sector = ''Unknown'',
        pct_of_aum = Finite (31 / 5), market_value = None, quantity = None\<rparr>]"
  by code_simp

text \<open>
  Claim C7. In a dual-block table the data row \<open>Reliance Industries, 8.5%, TCS, 6.2%\<close>
  yields exactly two holdings, with weights 8.5 and 6.2, wherever it stands among the
  data rows; and every holding of a dual-block table comes from a pair that passes the
  filter: the name, stripped, has 3 to 100 characters, contains a letter and matches no
  skip label, and the parsed weight is above 0. The filter is exact: a pair that passes
  it yields its holding.
\<close>

theorem dual_block_pairs:
  "two_column_row [Some ''Reliance Industries'', Some ''8.5%'', Some ''TCS'', Some ''6.2%'']
     = [\<lparr>security = ''Reliance Industries'', isin = [], sector = ''Unknown'',
          pct_of_aum = Finite (17 / 2), market_value = None, quantity = None\<rparr>,
        \<lparr>security = ''TCS'', isin = [], sector = ''Unknown'',
          pct_of_aum = Finite (31 / 5), market_value = None, quantity = None\<rparr>]
   \<and> table_holdings
       [[Some ''Scrip'', Some ''Weightage'', Some ''Scrip'', Some ''Weightage''],
        [Some ''Reliance Industries'', Some ''8.5%'', Some ''TCS'', Some ''6.2%'']]
     = [\<lparr>security = ''Reliance Industries'', isin = [], sector = ''Unknown'',
          pct_of_aum = Finite (17 / 2), market_value = None, quantity = None\<rparr>,
        \<lparr>security = ''TCS'', isin = [], sector = ''Unknown'',
          pct_of_aum = Finite (31 / 5), market_value = None, quantity = None\<rparr>]
   \<and> (\<forall>pre post.
         two_column_rows
           (pre @ [Some ''Reliance Industries'', Some ''8.5%'', Some ''TCS'', Some ''6.2%''] # post)
         = two_column_rows pre
           @ [\<lparr>security = ''Reliance Industries'', isin = [], sector = ''Unknown'',
                pct_of_aum = Finite (17 / 2), market_value = None, quantity = None\<rparr>,
              \<lparr>security = ''TCS'', isin = [], sector = ''Unknown'',
                pct_of_aum = Finite (31 / 5), market_value = None, quantity = None\<rparr>]
           @ two_column_rows post)
   \<and> (\<forall>table header_idx h.
         h \<in> set (parse_two_column_table table header_idx)
         \<longrightarrow> pair_accepted (security h) (pct_of_aum h))
   \<and> (\<forall>name weight.
         pair_holding name weight =
           (if truthy name \<and> pair_accepted (strip (cell_str name)) (parse_percentage weight)
            then [\<lparr>security = strip (cell_str name), isin = [], sector = ''Unknown'',
                   pct_of_aum = parse_percentage weight, market_value = None, quantity = None\<rparr>]
            else []))"
proof (intro conjI allI impI)
  fix table header_idx h
  assume "h \<in> set (parse_two_column_table table header_idx)"
  then show "pair_accepted (security h) (pct_of_aum h)"
    unfolding parse_two_column_table_def by (rule two_column_rows_accepted)
next
  fix pre post
  show "two_column_rows
           (pre @ [Some ''Reliance Industries'', Some ''8.5%'', Some ''TCS'', Some ''6.2%''] # post)
         = two_column_rows pre
           @ [\<lparr>security = ''Reliance Industries'', isin = [], sector = ''Unknown'',
                pct_of_aum = Finite (17 / 2), market_value = None, quantity = None\<rparr>,
              \<lparr>security = ''TCS'', isin = [], sector = ''Unknown'',
                pct_of_aum = Finite (31 / 5), market_value = None, quantity = None\<rparr>]
           @ two_column_rows post"
    by (simp only: two_column_rows_append two_column_rows.simps reliance_row)
qed (rule reliance_row reliance_table pair_holding_eq)+

theorem dual_block_pairs_witness:
  "\<lparr>security = ''TCS'', isin = [], sector = ''Unknown'',
     pct_of_aum = Finite (31 / 5), market_value = None, quantity = None\<rparr>
     \<in> set (parse_two_column_table
              [[Some ''Scrip'', Some ''Weightage'', Some ''Scrip'', Some ''Weightage''],
               [Some ''Reliance Industries'', Some ''8.5%'', Some ''TCS'', Some ''6.2%'']] 0)
   \<and> pair_accepted ''TCS'' (Finite (31 / 5))"
proof -
  have m: "\<lparr>security = ''TCS'', isin = [], sector = ''Unknown'',
     pct_of_aum = Finite (31 / 5), market_value = None, quantity = None\<rparr>
     \<in> set (parse_two_column_table
              [[Some ''Scrip'', Some ''Weightage'', Some ''Scrip'', Some ''Weightage''],
               [Some ''Reliance Industries'', Some ''8.5%'', Some ''TCS'', Some ''6.2%'']] 0)"
    by code_simp
  from dual_block_pairs[THEN conjunct2, THEN conjunct2, THEN conjunct2, THEN conjunct1,
         rule_format, OF m]
  have "pair_accepted ''TCS'' (Finite (31 / 5))" by simp
  with m show ?thesis by (rule conjI)
qed

section \<open>Claim C3: a security column in the first place\<close>

text \<open>
  Claim C3 says that a single-block table whose header maps the security role to a
  column, column 0 included, has its data rows parsed. The code tests the index for
  truth, and the index 0 is false: the table below, with the security names in the first
  column, is skipped, although its header is recognised, the security role is mapped
  to column 0 and the row parser accepts the data row; the same table behind a numbering
  column is parsed.
\<close>

theorem security_in_first_column_skipped:
  "map_columns [Some ''Security'', Some ''Weight''] ''security'' = Some 0
   \<and> find_header 0 [[Some ''Security'', Some ''Weight''], [Some ''Reliance Industries'', Some ''8.5%'']]
       = Some ([Some ''Security'', Some ''Weight''], 0, False)
   \<and> parse_holding_row [Some ''Reliance Industries'', Some ''8.5%'']
         (map_columns [Some ''Security'', Some ''Weight'']) ''Unknown''
       = Some \<lparr>security = ''Reliance Industries'', isin = [], sector = ''Unknown'',
               pct_of_aum = Finite (17 / 2), market_value = None, quantity = None\<rparr>
   \<and> table_holdings [[Some ''Security'', Some ''Weight''], [Some ''Reliance Industries'', Some ''8.5%'']] = []
   \<and> table_holdings [[Some ''No'', Some ''Security'', Some ''Weight''], [Some ''1'', Some ''Reliance Industries'', Some ''8.5%'']]
       = [\<lparr>security = ''Reliance Industries'', isin = [], sector = ''Unknown'',
               pct_of_aum = Finite (17 / 2), market_value = None, quantity = None\<rparr>]"
  by code_simp

end
